theory Spec2Isabelle
  imports Main "HOL-Library.Sublist"
begin

section \<open>Python strings\<close>

text \<open>
  A Python \<open>str\<close> is a sequence of code points. It is modelled as a \<open>string\<close> whose
  characters are read as the code points U+0000 to U+00FF, so \<open>length\<close> counts code
  points as Python's \<open>len\<close> does. On this range \<open>str.isspace\<close> and \<open>str.lower\<close> are
  the two functions below; prompts with code points beyond U+00FF are outside the model.
\<close>

definition isspace :: "char \<Rightarrow> bool" where
  \<comment> \<open>the characters \<open>str.strip()\<close> and \<open>str.split()\<close> treat as whitespace:
      TAB, LF, VT, FF, CR, FS, GS, RS, US, space, NEL and the no-break space\<close>
  "isspace c =
     (let n = (of_char c :: nat)
      in (9 \<le> n \<and> n \<le> 13) \<or> (28 \<le> n \<and> n \<le> 32) \<or> n = 133 \<or> n = 160)"

definition lower_char :: "char \<Rightarrow> char" where
  \<comment> \<open>\<open>A\<close> to \<open>Z\<close> and the upper-case letters of U+00C0 to U+00DE (the multiplication
      sign U+00D7 is no letter) move 32 code points up; every other character stays\<close>
  "lower_char c =
     (let n = (of_char c :: nat)
      in if (65 \<le> n \<and> n \<le> 90) \<or> (192 \<le> n \<and> n \<le> 222 \<and> n \<noteq> 215)
         then char_of (n + 32) else c)"

definition str_lower :: "string \<Rightarrow> string" where
  \<comment> \<open>\<open>s.lower()\<close>\<close>
  "str_lower s = map lower_char s"

definition str_strip :: "string \<Rightarrow> string" where
  \<comment> \<open>\<open>s.strip()\<close>: leading and trailing whitespace removed\<close>
  "str_strip s = rev (dropWhile isspace (rev (dropWhile isspace s)))"

fun split_from :: "string \<Rightarrow> string \<Rightarrow> string list" where
  \<comment> \<open>the scan of \<open>s.split()\<close>; the first argument is the word read so far\<close>
  "split_from w [] = (if w = [] then [] else [w])"
| "split_from w (c # cs) =
     (if isspace c then (if w = [] then split_from [] cs else w # split_from [] cs)
      else split_from (w @ [c]) cs)"

definition str_split :: "string \<Rightarrow> string list" where
  \<comment> \<open>\<open>s.split()\<close>: the maximal runs of non-whitespace characters\<close>
  "str_split s = split_from [] s"

fun str_in :: "string \<Rightarrow> string \<Rightarrow> bool" where
  \<comment> \<open>\<open>word in s\<close> on strings: \<open>word\<close> occurs in \<open>s\<close> as a contiguous substring\<close>
  "str_in word [] = (word = [])"
| "str_in word (c # cs) = (prefix word (c # cs) \<or> str_in word cs)"

definition any_word_in :: "string list \<Rightarrow> string \<Rightarrow> bool" where
  \<comment> \<open>\<open>any(word in s for word in words)\<close>\<close>
  "any_word_in words s = list_ex (\<lambda>word. str_in word s) words"

section \<open>The instruction file\<close>

text \<open>
  \<open>read_improvement_prompt\<close> looks for \<open>improvement_prompt.md\<close> beside the module. The
  file is absent, or present with a text, or present and \<open>read_text\<close> raises (the
  argument is the exception's message).
\<close>

datatype prompt_file = Absent | Present string | Unreadable string

datatype exn = ValueError string | ReadError string

fun str_of_exn :: "exn \<Rightarrow> string" where
  \<comment> \<open>\<open>str(e)\<close>\<close>
  "str_of_exn (ValueError m) = m"
| "str_of_exn (ReadError m) = m"

fun read_improvement_prompt :: "prompt_file \<Rightarrow> exn + string" where
  "read_improvement_prompt (Present contents) = Inr contents"
| "read_improvement_prompt (Unreadable m) = Inl (ReadError m)"
| "read_improvement_prompt Absent =
     Inr ''Improve the following prompt to be clearer and more effective:''"

section \<open>The enhancement engine of main.py and server.py\<close>

definition code_format_main :: string where
  "code_format_main =
     ''\<newline>\<newline>Please include:\<newline>- Clear comments explaining the code\<newline>- Error handling where appropriate\<newline>- Example usage''"

definition closing_main :: string where
  "closing_main = ''\<newline>\<newline>Ensure the response is practical and actionable.''"

definition specificity_main :: string where
  "specificity_main = ''. Please provide detailed steps and examples.''"

definition add_role_main :: "string \<Rightarrow> string \<Rightarrow> string" where
  \<comment> \<open>the role definition: tested on the prompt as given, prefixed to the buffer\<close>
  "add_role_main prompt enhanced =
     (if any_word_in [''code'', ''program'', ''develop''] (str_lower prompt)
      then ''Act as an expert software developer. '' @ enhanced
      else if any_word_in [''write'', ''document'', ''explain''] (str_lower prompt)
      then ''Act as a technical writer. '' @ enhanced
      else enhanced)"

definition add_specificity_main :: "string \<Rightarrow> string" where
  "add_specificity_main enhanced =
     (if length (str_split enhanced) < 10 then enhanced @ specificity_main else enhanced)"

definition add_context :: "string \<Rightarrow> string \<Rightarrow> string" where
  "add_context context enhanced =
     (if context \<noteq> [] then enhanced @ ''\<newline>\<newline>Context: '' @ context else enhanced)"

definition code_request_main :: "string \<Rightarrow> bool" where
  "code_request_main enhanced =
     any_word_in [''code'', ''function'', ''script''] (str_lower enhanced)"

definition add_code_format_main :: "string \<Rightarrow> string" where
  "add_code_format_main enhanced =
     (if code_request_main enhanced then enhanced @ code_format_main else enhanced)"

definition enhance_prompt_structure_main :: "string \<Rightarrow> string \<Rightarrow> string list \<Rightarrow> string" where
  "enhance_prompt_structure_main prompt context improvements =
     (let enhanced = str_strip prompt;
          enhanced = add_role_main prompt enhanced;
          enhanced = add_specificity_main enhanced;
          enhanced = add_context context enhanced;
          enhanced = add_code_format_main enhanced
      in enhanced @ closing_main)"

section \<open>The enhancement engine of auto_improve_main.py\<close>

definition code_format_auto :: string where
  "code_format_auto =
     ''\<newline>\<newline>Please include:\<newline>- Clear comments explaining the code\<newline>- Error handling where appropriate\<newline>- Example usage\<newline>- Brief explanation of the approach''"

definition explanation_format_auto :: string where
  "explanation_format_auto =
     ''\<newline>\<newline>Please structure your response with:\<newline>- Clear introduction\<newline>- Step-by-step explanation\<newline>- Practical examples\<newline>- Summary of key points''"

definition closing_auto :: string where
  "closing_auto =
     ''\<newline>\<newline>Ensure the response is practical, actionable, and easy to understand.''"

definition specificity_auto :: string where
  "specificity_auto = ''. Please provide detailed steps, examples, and explanations.''"

definition add_role_auto :: "string \<Rightarrow> string \<Rightarrow> string" where
  "add_role_auto prompt enhanced =
     (if any_word_in [''code'', ''program'', ''develop''] (str_lower prompt)
      then ''Act as an expert software developer. '' @ enhanced
      else if any_word_in [''write'', ''document'', ''explain''] (str_lower prompt)
      then ''Act as a technical writer. '' @ enhanced
      else if any_word_in [''design'', ''ui'', ''ux''] (str_lower prompt)
      then ''Act as a UX/UI designer. '' @ enhanced
      else if any_word_in [''data'', ''analysis'', ''statistics''] (str_lower prompt)
      then ''Act as a data analyst. '' @ enhanced
      else enhanced)"

definition add_specificity_auto :: "string \<Rightarrow> string" where
  "add_specificity_auto enhanced =
     (if length (str_split enhanced) < 10 then enhanced @ specificity_auto else enhanced)"

definition code_request_auto :: "string \<Rightarrow> bool" where
  "code_request_auto enhanced =
     any_word_in [''code'', ''function'', ''script'', ''program''] (str_lower enhanced)"

definition add_code_format_auto :: "string \<Rightarrow> string" where
  "add_code_format_auto enhanced =
     (if code_request_auto enhanced then enhanced @ code_format_auto else enhanced)"

definition explanation_request_auto :: "string \<Rightarrow> bool" where
  "explanation_request_auto enhanced =
     any_word_in [''explain'', ''describe'', ''what is'', ''how does''] (str_lower enhanced)"

definition add_explanation_format_auto :: "string \<Rightarrow> string" where
  "add_explanation_format_auto enhanced =
     (if explanation_request_auto enhanced then enhanced @ explanation_format_auto
      else enhanced)"

definition enhance_prompt_structure_auto :: "string \<Rightarrow> string \<Rightarrow> string list \<Rightarrow> string" where
  "enhance_prompt_structure_auto prompt context improvements =
     (let enhanced = str_strip prompt;
          enhanced = add_role_auto prompt enhanced;
          enhanced = add_specificity_auto enhanced;
          enhanced = add_context context enhanced;
          enhanced = add_code_format_auto enhanced;
          enhanced = add_explanation_format_auto enhanced
      in enhanced @ closing_auto)"

section \<open>The callers of the engine\<close>

definition analyse_prompt :: "string \<Rightarrow> string \<Rightarrow> string list" where
  \<comment> \<open>the \<open>improvements\<close> list that \<open>improve_prompt_locally\<close> collects; the three
      files build it with the same statements\<close>
  "analyse_prompt user_prompt context =
     (let improvements = [];
          improvements =
            (if length (str_split user_prompt) < 5
             then improvements @ [''Make the request more specific and detailed'']
             else improvements);
          improvements =
            (if context = [] \<and>
                \<not> any_word_in [''python'', ''javascript'', ''web'', ''app'', ''code'']
                    (str_lower user_prompt)
             then improvements @ [''Consider adding context about the technology or domain'']
             else improvements);
          improvements =
            (if \<not> any_word_in
                    [''create'', ''build'', ''write'', ''generate'', ''help'', ''explain'', ''show'']
                    (str_lower user_prompt)
             then improvements @ [''Specify what action you want performed'']
             else improvements)
      in improvements)"

definition improve_prompt_locally_main :: "prompt_file \<Rightarrow> string \<Rightarrow> string \<Rightarrow> exn + string" where
  "improve_prompt_locally_main file user_prompt context =
     (case read_improvement_prompt file of
        Inl e \<Rightarrow> Inl e
      | Inr improvement_instructions \<Rightarrow>
          Inr (enhance_prompt_structure_main user_prompt context
                 (analyse_prompt user_prompt context)))"

definition improve_prompt_locally_auto :: "prompt_file \<Rightarrow> string \<Rightarrow> string \<Rightarrow> exn + string" where
  "improve_prompt_locally_auto file user_prompt context =
     (case read_improvement_prompt file of
        Inl e \<Rightarrow> Inl e
      | Inr improvement_instructions \<Rightarrow>
          Inr (enhance_prompt_structure_auto user_prompt context
                 (analyse_prompt user_prompt context)))"

text \<open>
  The tool arguments are the dictionary of the call. Both tools declare their arguments
  as strings, so the dictionary maps names to strings; \<open>arguments.get(key, "")\<close> is
  \<open>get_arg\<close>. A handler returns its payload together with the calls of
  \<open>improve_prompt_locally\<close> it made, in order, so that a statement can say whether the
  engine ran.
\<close>

record TextContent =
  "type" :: string
  "text" :: string

datatype engine_call = Improve_prompt_locally string string

definition get_arg :: "(string \<rightharpoonup> string) \<Rightarrow> string \<Rightarrow> string" where
  "get_arg arguments key = (case arguments key of None \<Rightarrow> [] | Some v \<Rightarrow> v)"

definition handle_call_tool_main ::
  "prompt_file \<Rightarrow> string \<Rightarrow> (string \<rightharpoonup> string) \<Rightarrow> engine_call list \<times> (exn + TextContent list)" where
  "handle_call_tool_main file name arguments =
     (if name \<noteq> ''improve_prompt'' then ([], Inl (ValueError (''Unknown tool: '' @ name)))
      else
        let user_prompt = get_arg arguments ''user_prompt'';
            context = get_arg arguments ''context''
        in if user_prompt = []
           then ([], Inr [\<lparr>type = ''text'', text = ''Error: No prompt provided to improve.''\<rparr>])
           else ([Improve_prompt_locally user_prompt context],
                 case improve_prompt_locally_main file user_prompt context of
                   Inr improved_prompt \<Rightarrow> Inr [\<lparr>type = ''text'', text = improved_prompt\<rparr>]
                 | Inl e \<Rightarrow>
                     Inr [\<lparr>type = ''text'', text = ''Error improving prompt: '' @ str_of_exn e\<rparr>]))"

definition handle_call_tool_auto ::
  "prompt_file \<Rightarrow> string \<Rightarrow> (string \<rightharpoonup> string) \<Rightarrow> engine_call list \<times> (exn + TextContent list)" where
  "handle_call_tool_auto file name arguments =
     (if name = ''improve_prompt'' then
        let user_prompt = get_arg arguments ''user_prompt'';
            context = get_arg arguments ''context''
        in if user_prompt = []
           then ([], Inr [\<lparr>type = ''text'', text = ''Error: No prompt provided to improve.''\<rparr>])
           else ([Improve_prompt_locally user_prompt context],
                 case improve_prompt_locally_auto file user_prompt context of
                   Inr improved_prompt \<Rightarrow> Inr [\<lparr>type = ''text'', text = improved_prompt\<rparr>]
                 | Inl e \<Rightarrow>
                     Inr [\<lparr>type = ''text'', text = ''Error improving prompt: '' @ str_of_exn e\<rparr>])
      else if name = ''auto_improve_all_prompts'' then
        let user_message = get_arg arguments ''user_message''
        in if user_message = []
           then ([], Inr [\<lparr>type = ''text'', text = ''Error: No message provided to improve.''\<rparr>])
           else ([Improve_prompt_locally user_message []],
                 case improve_prompt_locally_auto file user_message [] of
                   Inr improved_message \<Rightarrow>
                     Inr [\<lparr>type = ''text'',
                           text = ''IMPROVED PROMPT:\<newline>\<newline>'' @ improved_message @
                                  ''\<newline>\<newline>---\<newline>\<newline>ORIGINAL: '' @ user_message\<rparr>]
                 | Inl e \<Rightarrow>
                     Inr [\<lparr>type = ''text'', text = ''Error improving message: '' @ str_of_exn e\<rparr>])
      else ([], Inl (ValueError (''Unknown tool: '' @ name))))"

section \<open>Containment ignoring case\<close>

text \<open>
  What "the word occurs in the prompt, ignoring case" means, said without the engine's
  own lower-casing: some stretch of the prompt spells the word letter for letter, where
  a capital \<open>A\<close> to \<open>Z\<close> (32 code points below its small letter) counts as that letter.
\<close>

definition same_letter :: "char \<Rightarrow> char \<Rightarrow> bool" where
  "same_letter c d =
     (c = d \<or>
      (97 \<le> (of_char d :: nat) \<and> (of_char d :: nat) \<le> 122 \<and>
       (of_char c :: nat) + 32 = of_char d))"

definition occurs_ignoring_case :: "string \<Rightarrow> string \<Rightarrow> bool" where
  "occurs_ignoring_case word s =
     (\<exists>ps m ss. s = ps @ m @ ss \<and> list_all2 same_letter m word)"

definition some_occurs_ignoring_case :: "string list \<Rightarrow> string \<Rightarrow> bool" where
  "some_occurs_ignoring_case words s = (\<exists>word\<in>set words. occurs_ignoring_case word s)"

definition small_letters :: "string \<Rightarrow> bool" where
  \<comment> \<open>the word is written in \<open>a\<close> to \<open>z\<close> only, as every trigger word of the engine is\<close>
  "small_letters word = list_all (\<lambda>d. 97 \<le> (of_char d :: nat) \<and> (of_char d :: nat) \<le> 122) word"

section \<open>Facts about the string operations\<close>

lemma str_in_sublist: "str_in word s = sublist word s"
  by (induction s) (simp_all add: sublist_Cons_right)

lemma str_in_appendI: "str_in word (ps @ word @ ss)"
  by (simp add: str_in_sublist)

lemma str_in_append_right: "str_in word s \<Longrightarrow> str_in word (ps @ s)"
  unfolding str_in_sublist sublist_def by (metis append.assoc)

lemma str_in_append_left: "str_in word s \<Longrightarrow> str_in word (s @ ss)"
  unfolding str_in_sublist sublist_def by (metis append.assoc)

lemma str_lower_append: "str_lower (s @ t) = str_lower s @ str_lower t"
  by (simp add: str_lower_def)

lemma any_word_in_append_right: "any_word_in ws s \<Longrightarrow> any_word_in ws (ps @ s)"
  by (auto simp: any_word_in_def list_ex_iff intro: str_in_append_right)

text \<open>Every stage after the role sentence only appends to the buffer.\<close>

lemma prefix_add_specificity_main: "prefix e (add_specificity_main e)"
  by (simp add: add_specificity_main_def)
lemma prefix_add_specificity_auto: "prefix e (add_specificity_auto e)"
  by (simp add: add_specificity_auto_def)
lemma prefix_add_context: "prefix e (add_context c e)"
  by (simp add: add_context_def)
lemma prefix_add_code_format_main: "prefix e (add_code_format_main e)"
  by (simp add: add_code_format_main_def)
lemma prefix_add_code_format_auto: "prefix e (add_code_format_auto e)"
  by (simp add: add_code_format_auto_def)
lemma prefix_add_explanation_format_auto: "prefix e (add_explanation_format_auto e)"
  by (simp add: add_explanation_format_auto_def)

lemma prefix_role_main:
  "prefix (add_role_main prompt (str_strip prompt))
     (enhance_prompt_structure_main prompt context improvements)"
proof -
  let ?r = "add_role_main prompt (str_strip prompt)"
  have "prefix ?r (add_specificity_main ?r)" by (rule prefix_add_specificity_main)
  also have "prefix \<dots> (add_context context \<dots>)" by (rule prefix_add_context)
  also have "prefix \<dots> (add_code_format_main \<dots>)" by (rule prefix_add_code_format_main)
  also have "prefix \<dots> (\<dots> @ closing_main)" by simp
  finally show ?thesis by (simp add: enhance_prompt_structure_main_def Let_def)
qed

lemma prefix_role_auto:
  "prefix (add_role_auto prompt (str_strip prompt))
     (enhance_prompt_structure_auto prompt context improvements)"
proof -
  let ?r = "add_role_auto prompt (str_strip prompt)"
  have "prefix ?r (add_specificity_auto ?r)" by (rule prefix_add_specificity_auto)
  also have "prefix \<dots> (add_context context \<dots>)" by (rule prefix_add_context)
  also have "prefix \<dots> (add_code_format_auto \<dots>)" by (rule prefix_add_code_format_auto)
  also have "prefix \<dots> (add_explanation_format_auto \<dots>)"
    by (rule prefix_add_explanation_format_auto)
  also have "prefix \<dots> (\<dots> @ closing_auto)" by simp
  finally show ?thesis by (simp add: enhance_prompt_structure_auto_def Let_def)
qed

text \<open>A checklist that is appended can meet the next keyword test.\<close>

lemma any_word_in_lower_append_right:
  "any_word_in ws (str_lower b) \<Longrightarrow> any_word_in ws (str_lower (e @ b))"
  by (simp add: str_lower_append any_word_in_append_right)

lemma explanation_request_code_format_auto:
  "explanation_request_auto (e @ code_format_auto)"
proof -
  have "any_word_in [''explain'', ''describe'', ''what is'', ''how does'']
          (str_lower code_format_auto)"
    by code_simp
  then show ?thesis
    unfolding explanation_request_auto_def by (rule any_word_in_lower_append_right)
qed

text \<open>A prompt of whitespace only: nothing is left after trimming and no word occurs.\<close>

lemma str_strip_whitespace:
  assumes "\<forall>c\<in>set s. isspace c"
  shows "str_strip s = []"
proof -
  have d: "dropWhile isspace s = []"
    using assms by simp
  show ?thesis
    unfolding str_strip_def d by simp
qed

lemma lower_char_space: "isspace c \<Longrightarrow> lower_char c = c"
  by (auto simp: isspace_def lower_char_def Let_def)

lemma str_lower_whitespace: "\<forall>c\<in>set s. isspace c \<Longrightarrow> str_lower s = s"
  by (simp add: str_lower_def lower_char_space map_idI)

lemma str_in_set: "str_in word s \<Longrightarrow> set word \<subseteq> set s"
  unfolding str_in_sublist sublist_def by auto

lemma no_word_in_whitespace:
  assumes "\<forall>c\<in>set s. isspace c" and "\<forall>w\<in>set ws. \<exists>c\<in>set w. \<not> isspace c"
  shows "\<not> any_word_in ws s"
  using assms by (auto simp: any_word_in_def list_ex_iff dest!: str_in_set)

lemma add_role_main_whitespace:
  assumes "\<forall>c\<in>set p. isspace c"
  shows "add_role_main p e = e"
proof -
  have "\<not> any_word_in [''code'', ''program'', ''develop''] (str_lower p)"
    using assms by (intro no_word_in_whitespace) (simp_all add: str_lower_whitespace isspace_def)
  moreover have "\<not> any_word_in [''write'', ''document'', ''explain''] (str_lower p)"
    using assms by (intro no_word_in_whitespace) (simp_all add: str_lower_whitespace isspace_def)
  ultimately show ?thesis by (simp add: add_role_main_def)
qed

lemma enhance_main_whitespace:
  assumes "\<forall>c\<in>set p. isspace c"
  shows "enhance_prompt_structure_main p [] improvements =
           ''. Please provide detailed steps and examples.'' @
           ''\<newline>\<newline>Ensure the response is practical and actionable.''"
proof -
  have 1: "add_role_main p (str_strip p) = []"
    using assms by (simp add: add_role_main_whitespace str_strip_whitespace)
  have 2: "add_specificity_main [] = specificity_main"
    by (simp add: add_specificity_main_def str_split_def)
  have 3: "add_code_format_main specificity_main = specificity_main"
    by code_simp
  show ?thesis
    by (simp add: enhance_prompt_structure_main_def Let_def 1 2 3 add_context_def)
       (simp add: specificity_main_def closing_main_def)
qed

text \<open>
  When does appending or prefixing a block create a new occurrence of a word? Not when
  the block holds none and its first (last) character is not one of the word's.
\<close>

lemma sublist_append_block_right:
  assumes "\<not> sublist n b" and "b \<noteq> []" and "hd b \<notin> set n"
  shows "sublist n (x @ b) \<longleftrightarrow> sublist n x"
proof
  assume "sublist n (x @ b)"
  then consider "sublist n x" | "sublist n b"
    | n1 n2 where "n = n1 @ n2" "suffix n1 x" "prefix n2 b"
    unfolding sublist_append by blast
  then show "sublist n x"
  proof cases
    case 1
    then show ?thesis .
  next
    case 2
    with assms(1) show ?thesis by simp
  next
    case 3
    show ?thesis
    proof (cases n2)
      case Nil
      with 3 show ?thesis by (simp add: suffix_imp_sublist)
    next
      case (Cons c cs)
      with 3(3) assms(2) have "hd b = c" by (cases b) auto
      with 3(1) Cons assms(3) show ?thesis by simp
    qed
  qed
next
  assume "sublist n x"
  then show "sublist n (x @ b)"
    unfolding sublist_def by (metis append.assoc)
qed

lemma sublist_append_block_left:
  assumes "\<not> sublist n a" and "a \<noteq> []" and "last a \<notin> set n"
  shows "sublist n (a @ x) \<longleftrightarrow> sublist n x"
proof
  assume "sublist n (a @ x)"
  then consider "sublist n a" | "sublist n x"
    | n1 n2 where "n = n1 @ n2" "suffix n1 a" "prefix n2 x"
    unfolding sublist_append by blast
  then show "sublist n x"
  proof cases
    case 1
    with assms(1) show ?thesis by simp
  next
    case 2
    then show ?thesis .
  next
    case 3
    show ?thesis
    proof (cases "n1 = []")
      case True
      with 3 show ?thesis by (simp add: prefix_imp_sublist)
    next
      case False
      with 3(2) have "last a = last n1" by (auto simp: suffix_def)
      moreover from False 3(1) have "last n1 \<in> set n" by simp
      ultimately show ?thesis using assms(3) by simp
    qed
  qed
next
  assume "sublist n x"
  then show "sublist n (a @ x)"
    unfolding sublist_def by (metis append.assoc)
qed

lemma sublist_append_disjoint_right:
  assumes "set b \<inter> set n = {}" and "n \<noteq> []"
  shows "sublist n (x @ b) \<longleftrightarrow> sublist n x"
proof (cases "b = []")
  case True
  then show ?thesis by simp
next
  case False
  have nb: "\<not> sublist n b"
  proof
    assume "sublist n b"
    then have "set n \<subseteq> set b" by (auto simp: sublist_def)
    with assms show False by (cases n) auto
  qed
  from False assms(1) have "hd b \<notin> set n"
    by (cases b) auto
  with nb False show ?thesis by (rule sublist_append_block_right)
qed

lemma sublist_append_disjoint_left:
  assumes "set a \<inter> set n = {}" and "n \<noteq> []"
  shows "sublist n (a @ x) \<longleftrightarrow> sublist n x"
proof (cases "a = []")
  case True
  then show ?thesis by simp
next
  case False
  have na: "\<not> sublist n a"
  proof
    assume "sublist n a"
    then have "set n \<subseteq> set a" by (auto simp: sublist_def)
    with assms show False by (cases n) auto
  qed
  from False assms(1) have "last a \<notin> set n"
    using last_in_set by fastforce
  with na False show ?thesis by (rule sublist_append_block_left)
qed

lemma str_strip_decomposition:
  "\<exists>l r. s = l @ str_strip s @ r \<and> (\<forall>c\<in>set l. isspace c) \<and> (\<forall>c\<in>set r. isspace c)"
proof -
  let ?d = "dropWhile isspace s"
  have "?d = rev (takeWhile isspace (rev ?d) @ dropWhile isspace (rev ?d))"
    by (simp only: takeWhile_dropWhile_id rev_rev_ident)
  then have d: "?d = str_strip s @ rev (takeWhile isspace (rev ?d))"
    by (simp only: rev_append str_strip_def)
  have "s = takeWhile isspace s @ ?d" by simp
  with d have "s = takeWhile isspace s @ str_strip s @ rev (takeWhile isspace (rev ?d))"
    by simp
  moreover have "\<forall>c\<in>set (takeWhile isspace s). isspace c"
    by (auto dest: set_takeWhileD)
  moreover have "\<forall>c\<in>set (rev (takeWhile isspace (rev ?d))). isspace c"
    by (auto dest: set_takeWhileD)
  ultimately show ?thesis by blast
qed

lemma str_in_str_strip:
  assumes "\<forall>c\<in>set n. \<not> isspace c" and "n \<noteq> []"
  shows "str_in n (str_strip s) \<longleftrightarrow> str_in n s"
proof -
  obtain l r where s: "s = l @ str_strip s @ r"
    and l: "\<forall>c\<in>set l. isspace c" and r: "\<forall>c\<in>set r. isspace c"
    using str_strip_decomposition by blast
  from l assms(1) have "set l \<inter> set n = {}" by auto
  then have 1: "sublist n (l @ str_strip s @ r) \<longleftrightarrow> sublist n (str_strip s @ r)"
    using assms(2) by (rule sublist_append_disjoint_left)
  from r assms(1) have "set r \<inter> set n = {}" by auto
  then have 2: "sublist n (str_strip s @ r) \<longleftrightarrow> sublist n (str_strip s)"
    using assms(2) by (rule sublist_append_disjoint_right)
  from 1 2 have "sublist n s \<longleftrightarrow> sublist n (str_strip s)"
    using s by simp
  then show ?thesis by (simp add: str_in_sublist)
qed

text \<open>The blocks the engine adds hold no "Context:" and none can complete one.\<close>

lemma context_free_block:
  assumes "\<not> str_in ''Context:'' b" and "b \<noteq> []" and "hd b \<notin> set ''Context:''"
  shows "str_in ''Context:'' (e @ b) \<longleftrightarrow> str_in ''Context:'' e"
  using assms unfolding str_in_sublist by (rule sublist_append_block_right)

lemma context_free_role:
  assumes "\<not> str_in ''Context:'' a" and "a \<noteq> []" and "last a \<notin> set ''Context:''"
  shows "str_in ''Context:'' (a @ e) \<longleftrightarrow> str_in ''Context:'' e"
  using assms unfolding str_in_sublist by (rule sublist_append_block_left)

lemma context_free_specificity_main:
  "str_in ''Context:'' (add_specificity_main e) \<longleftrightarrow> str_in ''Context:'' e"
proof -
  have "\<not> str_in ''Context:'' specificity_main" by code_simp
  moreover have "specificity_main \<noteq> []" "hd specificity_main \<notin> set ''Context:''"
    by (simp_all add: specificity_main_def)
  ultimately show ?thesis
    by (simp add: add_specificity_main_def context_free_block)
qed

lemma context_free_specificity_auto:
  "str_in ''Context:'' (add_specificity_auto e) \<longleftrightarrow> str_in ''Context:'' e"
proof -
  have "\<not> str_in ''Context:'' specificity_auto" by code_simp
  moreover have "specificity_auto \<noteq> []" "hd specificity_auto \<notin> set ''Context:''"
    by (simp_all add: specificity_auto_def)
  ultimately show ?thesis
    by (simp add: add_specificity_auto_def context_free_block)
qed

lemma context_free_code_format_main:
  "str_in ''Context:'' (add_code_format_main e) \<longleftrightarrow> str_in ''Context:'' e"
proof -
  have "\<not> str_in ''Context:'' code_format_main" by code_simp
  moreover have "code_format_main \<noteq> []" "hd code_format_main \<notin> set ''Context:''"
    by (simp_all add: code_format_main_def)
  ultimately show ?thesis
    by (simp add: add_code_format_main_def context_free_block)
qed

lemma context_free_code_format_auto:
  "str_in ''Context:'' (add_code_format_auto e) \<longleftrightarrow> str_in ''Context:'' e"
proof -
  have "\<not> str_in ''Context:'' code_format_auto" by code_simp
  moreover have "code_format_auto \<noteq> []" "hd code_format_auto \<notin> set ''Context:''"
    by (simp_all add: code_format_auto_def)
  ultimately show ?thesis
    by (simp add: add_code_format_auto_def context_free_block)
qed

lemma context_free_explanation_format_auto:
  "str_in ''Context:'' (add_explanation_format_auto e) \<longleftrightarrow> str_in ''Context:'' e"
proof -
  have "\<not> str_in ''Context:'' explanation_format_auto" by code_simp
  moreover have "explanation_format_auto \<noteq> []"
    "hd explanation_format_auto \<notin> set ''Context:''"
    by (simp_all add: explanation_format_auto_def)
  ultimately show ?thesis
    by (simp add: add_explanation_format_auto_def context_free_block)
qed

lemma context_free_closing_main:
  "str_in ''Context:'' (e @ closing_main) \<longleftrightarrow> str_in ''Context:'' e"
proof -
  have "\<not> str_in ''Context:'' closing_main" by code_simp
  moreover have "closing_main \<noteq> []" "hd closing_main \<notin> set ''Context:''"
    by (simp_all add: closing_main_def)
  ultimately show ?thesis by (rule context_free_block)
qed

lemma context_free_closing_auto:
  "str_in ''Context:'' (e @ closing_auto) \<longleftrightarrow> str_in ''Context:'' e"
proof -
  have "\<not> str_in ''Context:'' closing_auto" by code_simp
  moreover have "closing_auto \<noteq> []" "hd closing_auto \<notin> set ''Context:''"
    by (simp_all add: closing_auto_def)
  ultimately show ?thesis by (rule context_free_block)
qed

lemma context_free_role_sentences:
  "str_in ''Context:'' (''Act as an expert software developer. '' @ e) \<longleftrightarrow> str_in ''Context:'' e"
  "str_in ''Context:'' (''Act as a technical writer. '' @ e) \<longleftrightarrow> str_in ''Context:'' e"
  "str_in ''Context:'' (''Act as a UX/UI designer. '' @ e) \<longleftrightarrow> str_in ''Context:'' e"
  "str_in ''Context:'' (''Act as a data analyst. '' @ e) \<longleftrightarrow> str_in ''Context:'' e"
proof -
  show "str_in ''Context:'' (''Act as an expert software developer. '' @ e) \<longleftrightarrow> str_in ''Context:'' e"
    by (rule context_free_role) simp_all
  show "str_in ''Context:'' (''Act as a technical writer. '' @ e) \<longleftrightarrow> str_in ''Context:'' e"
    by (rule context_free_role) simp_all
  show "str_in ''Context:'' (''Act as a UX/UI designer. '' @ e) \<longleftrightarrow> str_in ''Context:'' e"
    by (rule context_free_role) simp_all
  show "str_in ''Context:'' (''Act as a data analyst. '' @ e) \<longleftrightarrow> str_in ''Context:'' e"
    by (rule context_free_role) simp_all
qed

lemma context_free_role_main:
  "str_in ''Context:'' (add_role_main p e) \<longleftrightarrow> str_in ''Context:'' e"
  unfolding add_role_main_def using context_free_role_sentences [of e] by presburger

lemma context_free_role_auto:
  "str_in ''Context:'' (add_role_auto p e) \<longleftrightarrow> str_in ''Context:'' e"
  unfolding add_role_auto_def using context_free_role_sentences [of e] by presburger

lemma context_free_str_strip: "str_in ''Context:'' (str_strip p) \<longleftrightarrow> str_in ''Context:'' p"
  by (rule str_in_str_strip) (simp_all add: isspace_def)


lemma str_in_add_context:
  assumes "context \<noteq> []"
  shows "str_in (''Context: '' @ context) (add_context context e)"
proof -
  have "add_context context e = (e @ ''\<newline>\<newline>'') @ (''Context: '' @ context) @ []"
    using assms by (simp add: add_context_def)
  then show ?thesis
    by (simp only: str_in_appendI)
qed

lemma str_in_add_code_format_main: "str_in w e \<Longrightarrow> str_in w (add_code_format_main e)"
  by (simp add: add_code_format_main_def str_in_append_left)

lemma str_in_add_code_format_auto: "str_in w e \<Longrightarrow> str_in w (add_code_format_auto e)"
  by (simp add: add_code_format_auto_def str_in_append_left)

lemma str_in_add_explanation_format_auto:
  "str_in w e \<Longrightarrow> str_in w (add_explanation_format_auto e)"
  by (simp add: add_explanation_format_auto_def str_in_append_left)

text \<open>
  The engine's test "the word occurs in the lower-cased prompt" is containment ignoring
  case, for a word written in small letters.
\<close>

lemma of_char_lower_char:
  "(of_char (lower_char c) :: nat) =
     (if (65 \<le> (of_char c :: nat) \<and> (of_char c :: nat) \<le> 90) \<or>
         (192 \<le> (of_char c :: nat) \<and> (of_char c :: nat) \<le> 222 \<and> (of_char c :: nat) \<noteq> 215)
      then of_char c + 32 else of_char c)"
  by (auto simp: lower_char_def Let_def)

lemma lower_char_small_letter:
  assumes "97 \<le> (of_char d :: nat)" and "(of_char d :: nat) \<le> 122"
  shows "lower_char c = d \<longleftrightarrow> same_letter c d"
proof -
  have "lower_char c = d \<longleftrightarrow> (of_char (lower_char c) :: nat) = of_char d"
    by simp
  also have "\<dots> \<longleftrightarrow> (of_char c :: nat) = of_char d \<or> (of_char c :: nat) + 32 = of_char d"
    using assms unfolding of_char_lower_char by auto
  also have "\<dots> \<longleftrightarrow> same_letter c d"
    using assms by (simp add: same_letter_def)
  finally show ?thesis .
qed

lemma map_lower_char_small_letters:
  "small_letters w \<Longrightarrow> map lower_char m = w \<longleftrightarrow> list_all2 same_letter m w"
proof (induction w arbitrary: m)
  case Nil
  then show ?case by simp
next
  case (Cons d w)
  then have d: "97 \<le> (of_char d :: nat)" "(of_char d :: nat) \<le> 122" and w: "small_letters w"
    by (simp_all add: small_letters_def)
  show ?case
  proof (cases m)
    case Nil
    then show ?thesis by simp
  next
    case (Cons c m')
    with Cons.IH [OF w, of m'] lower_char_small_letter [OF d, of c] show ?thesis
      by simp
  qed
qed

lemma sublist_map_iff:
  "sublist w (map f s) \<longleftrightarrow> (\<exists>ps m ss. s = ps @ m @ ss \<and> map f m = w)"
proof
  assume "sublist w (map f s)"
  then obtain ps' ss' where "map f s = ps' @ w @ ss'"
    by (auto simp: sublist_def)
  then have "\<exists>us vs. s = us @ vs \<and> ps' = map f us \<and> w @ ss' = map f vs"
    by (simp only: map_eq_append_conv)
  then obtain ps r where s: "s = ps @ r" and r: "w @ ss' = map f r"
    by blast
  from r have "\<exists>us vs. r = us @ vs \<and> w = map f us \<and> ss' = map f vs"
    by (simp only: append_eq_map_conv)
  then obtain m ss where "r = m @ ss" and "map f m = w"
    by auto
  with s show "\<exists>ps m ss. s = ps @ m @ ss \<and> map f m = w"
    by blast
next
  assume "\<exists>ps m ss. s = ps @ m @ ss \<and> map f m = w"
  then obtain ps m ss where "s = ps @ m @ ss" and "map f m = w"
    by blast
  then have "map f s = map f ps @ w @ map f ss"
    by simp
  then show "sublist w (map f s)"
    unfolding sublist_def by blast
qed

lemma str_in_lower_iff:
  assumes "small_letters word"
  shows "str_in word (str_lower s) \<longleftrightarrow> occurs_ignoring_case word s"
  unfolding str_in_sublist str_lower_def sublist_map_iff occurs_ignoring_case_def
  using map_lower_char_small_letters [OF assms] by simp

lemma any_word_in_lower_iff:
  assumes "list_all small_letters words"
  shows "any_word_in words (str_lower s) \<longleftrightarrow> some_occurs_ignoring_case words s"
  using assms
  by (auto simp: any_word_in_def some_occurs_ignoring_case_def list_ex_iff list_all_iff
        str_in_lower_iff)

lemma role_triggers_small_letters:
  "list_all small_letters [''code'', ''program'', ''develop'']"
  "list_all small_letters [''write'', ''document'', ''explain'']"
  "list_all small_letters [''design'', ''ui'', ''ux'']"
  "list_all small_letters [''data'', ''analysis'', ''statistics'']"
  by (simp_all add: small_letters_def)

lemmas role_trigger_iff = role_triggers_small_letters [THEN any_word_in_lower_iff]

section \<open>The instruction file: the default text\<close>

text \<open>
  C7: when \<open>improvement_prompt.md\<close> is absent, \<open>read_improvement_prompt\<close> returns the
  string "Improve the following prompt to be clearer and more effective:"; the result
  is a value (\<open>Inr\<close>), no exception.
\<close>

theorem read_improvement_prompt_absent:
  "read_improvement_prompt Absent =
     Inr ''Improve the following prompt to be clearer and more effective:''"
  by simp

section \<open>The closing sentence\<close>

text \<open>
  C4: for every prompt and context the output ends with the closing sentence of its
  variant, "Ensure the response is practical and actionable." in main.py and "Ensure the
  response is practical, actionable, and easy to understand." in auto_improve_main.py.
  The output is therefore never empty, for every prompt and so for every non-empty one.
\<close>

theorem enhance_prompt_structure_closing:
  "suffix ''Ensure the response is practical and actionable.''
     (enhance_prompt_structure_main prompt context improvements) \<and>
   suffix ''Ensure the response is practical, actionable, and easy to understand.''
     (enhance_prompt_structure_auto prompt context improvements) \<and>
   enhance_prompt_structure_main prompt context improvements \<noteq> [] \<and>
   enhance_prompt_structure_auto prompt context improvements \<noteq> []"
proof -
  have m: "\<exists>e. enhance_prompt_structure_main prompt context improvements =
             e @ ''Ensure the response is practical and actionable.''"
    by (simp add: enhance_prompt_structure_main_def closing_main_def Let_def)
  have a: "\<exists>e. enhance_prompt_structure_auto prompt context improvements =
             e @ ''Ensure the response is practical, actionable, and easy to understand.''"
    by (simp add: enhance_prompt_structure_auto_def closing_auto_def Let_def)
  from m a show ?thesis
    by (auto simp: suffix_def)
qed

section \<open>Two worked prompts\<close>

text \<open>
  C1, as the code has it: for the prompt "write a function" and an empty context the
  engine of main.py returns the writer's role sentence and the prompt, "Act as a
  technical writer. write a function", then the specificity sentence (the buffer has
  eight words), the code checklist (the buffer contains "function") and the closing
  sentence. No developer trigger ("code", "program", "develop") occurs in the prompt;
  "write" is a writer trigger.
\<close>

theorem enhance_write_a_function:
  "enhance_prompt_structure_main ''write a function'' [] improvements =
     ''Act as a technical writer. write a function'' @
     ''. Please provide detailed steps and examples.'' @
     ''\<newline>\<newline>Please include:\<newline>- Clear comments explaining the code\<newline>- Error handling where appropriate\<newline>- Example usage'' @
     ''\<newline>\<newline>Ensure the response is practical and actionable.''"
  unfolding enhance_prompt_structure_main_def by code_simp

text \<open>
  C1 as the claim states it fails: the output for "write a function" does not begin
  with "Act as an expert software developer. write a function".
\<close>

theorem enhance_write_a_function_not_developer:
  "\<not> prefix ''Act as an expert software developer. write a function''
       (enhance_prompt_structure_main ''write a function'' []
          (analyse_prompt ''write a function'' []))"
  by code_simp

text \<open>
  C5: for the prompt "Explain how garbage collection works" and the context "Java
  backend" the engine of auto_improve_main.py returns the writer's role sentence and
  the prompt, the context block, the explanation checklist and the closing sentence.
  The buffer after the role sentence has ten words, which is not below the threshold,
  and the specificity sentence occurs nowhere in the output.
\<close>

theorem enhance_garbage_collection:
  "enhance_prompt_structure_auto ''Explain how garbage collection works'' ''Java backend''
       improvements =
     ''Act as a technical writer. '' @ ''Explain how garbage collection works'' @
     ''\<newline>\<newline>Context: Java backend'' @
     ''\<newline>\<newline>Please structure your response with:\<newline>- Clear introduction\<newline>- Step-by-step explanation\<newline>- Practical examples\<newline>- Summary of key points'' @
     ''\<newline>\<newline>Ensure the response is practical, actionable, and easy to understand.'' \<and>
   length (str_split (add_role_auto ''Explain how garbage collection works''
                        (str_strip ''Explain how garbage collection works''))) = 10 \<and>
   \<not> str_in ''. Please provide detailed steps, examples, and explanations.''
       (enhance_prompt_structure_auto ''Explain how garbage collection works''
          ''Java backend'' improvements) \<and>
   str_in ''Context: Java backend''
       (enhance_prompt_structure_auto ''Explain how garbage collection works''
          ''Java backend'' improvements)"
  unfolding enhance_prompt_structure_auto_def by code_simp

section \<open>The role sentence\<close>

text \<open>
  C3, as the code has it: the engine prefixes at most one role sentence, the one of the
  first trigger list with a word that occurs in the prompt as given (not trimmed),
  ignoring case and anywhere in it, also inside a longer word. The output begins with
  that sentence, or with none, followed at once by the trimmed prompt. In
  auto_improve_main.py the order is developer ("code", "program", "develop"), writer
  ("write", "document", "explain"), designer ("design", "ui", "ux"), analyst ("data",
  "analysis", "statistics"). In main.py (and server.py) it is developer, then writer;
  there is no designer or analyst sentence there.
\<close>

theorem role_first_match:
  "prefix
     ((if some_occurs_ignoring_case [''code'', ''program'', ''develop''] prompt
       then ''Act as an expert software developer. ''
       else if some_occurs_ignoring_case [''write'', ''document'', ''explain''] prompt
       then ''Act as a technical writer. ''
       else if some_occurs_ignoring_case [''design'', ''ui'', ''ux''] prompt
       then ''Act as a UX/UI designer. ''
       else if some_occurs_ignoring_case [''data'', ''analysis'', ''statistics''] prompt
       then ''Act as a data analyst. ''
       else []) @ str_strip prompt)
     (enhance_prompt_structure_auto prompt context improvements) \<and>
   prefix
     ((if some_occurs_ignoring_case [''code'', ''program'', ''develop''] prompt
       then ''Act as an expert software developer. ''
       else if some_occurs_ignoring_case [''write'', ''document'', ''explain''] prompt
       then ''Act as a technical writer. ''
       else []) @ str_strip prompt)
     (enhance_prompt_structure_main prompt context improvements)"
proof -
  have a: "add_role_auto prompt (str_strip prompt) =
     (if some_occurs_ignoring_case [''code'', ''program'', ''develop''] prompt
       then ''Act as an expert software developer. ''
       else if some_occurs_ignoring_case [''write'', ''document'', ''explain''] prompt
       then ''Act as a technical writer. ''
       else if some_occurs_ignoring_case [''design'', ''ui'', ''ux''] prompt
       then ''Act as a UX/UI designer. ''
       else if some_occurs_ignoring_case [''data'', ''analysis'', ''statistics''] prompt
       then ''Act as a data analyst. ''
       else []) @ str_strip prompt"
    unfolding add_role_auto_def role_trigger_iff by simp
  have m: "add_role_main prompt (str_strip prompt) =
     (if some_occurs_ignoring_case [''code'', ''program'', ''develop''] prompt
       then ''Act as an expert software developer. ''
       else if some_occurs_ignoring_case [''write'', ''document'', ''explain''] prompt
       then ''Act as a technical writer. ''
       else []) @ str_strip prompt"
    unfolding add_role_main_def role_trigger_iff by simp
  show ?thesis
    using prefix_role_auto [of prompt "context" improvements]
          prefix_role_main [of prompt "context" improvements]
    unfolding a m by (rule conjI)
qed

text \<open>
  C3 at "  Ask a CODER " (capitals, inside a longer word, untrimmed) and at
  "Sales DATA" (the fourth list in auto_improve_main.py, no role in main.py).
\<close>

theorem role_first_match_witness:
  "prefix (''Act as an expert software developer. '' @ ''Ask a CODER'')
     (enhance_prompt_structure_auto ''  Ask a CODER '' [] []) \<and>
   prefix (''Act as an expert software developer. '' @ ''Ask a CODER'')
     (enhance_prompt_structure_main ''  Ask a CODER '' [] []) \<and>
   prefix (''Act as a data analyst. '' @ ''Sales DATA'')
     (enhance_prompt_structure_auto ''Sales DATA'' [] []) \<and>
   prefix ''Sales DATA'' (enhance_prompt_structure_main ''Sales DATA'' [] [])"
proof -
  have c: "some_occurs_ignoring_case [''code'', ''program'', ''develop''] ''  Ask a CODER ''"
    unfolding role_trigger_iff [symmetric] by code_simp
  have d: "\<not> some_occurs_ignoring_case [''code'', ''program'', ''develop''] ''Sales DATA''"
    "\<not> some_occurs_ignoring_case [''write'', ''document'', ''explain''] ''Sales DATA''"
    "\<not> some_occurs_ignoring_case [''design'', ''ui'', ''ux''] ''Sales DATA''"
    "some_occurs_ignoring_case [''data'', ''analysis'', ''statistics''] ''Sales DATA''"
    unfolding role_trigger_iff [symmetric] by code_simp+
  have s: "str_strip ''  Ask a CODER '' = ''Ask a CODER''" "str_strip ''Sales DATA'' = ''Sales DATA''"
    by code_simp+
  from role_first_match [of "''  Ask a CODER ''" "[]" "[]"]
       role_first_match [of "''Sales DATA''" "[]" "[]"]
  show ?thesis
    unfolding s by (simp only: c d if_True if_False append_Nil simp_thms)
qed

text \<open>
  C3 as the claim states it fails for main.py: in "sales data" no developer, writer or
  designer trigger occurs and the analyst trigger "data" does, yet the output of
  main.py has no analyst sentence; it begins with the prompt.
\<close>

theorem role_sales_data_main:
  "\<not> some_occurs_ignoring_case [''code'', ''program'', ''develop''] ''sales data'' \<and>
   \<not> some_occurs_ignoring_case [''write'', ''document'', ''explain''] ''sales data'' \<and>
   \<not> some_occurs_ignoring_case [''design'', ''ui'', ''ux''] ''sales data'' \<and>
   some_occurs_ignoring_case [''data'', ''analysis'', ''statistics''] ''sales data'' \<and>
   \<not> prefix ''Act as a data analyst. ''
       (enhance_prompt_structure_main ''sales data'' [] (analyse_prompt ''sales data'' [])) \<and>
   enhance_prompt_structure_main ''sales data'' [] (analyse_prompt ''sales data'' []) =
     ''sales data. Please provide detailed steps and examples.'' @
     ''\<newline>\<newline>Ensure the response is practical and actionable.''"
  unfolding role_trigger_iff [symmetric] by code_simp

section \<open>Missing input at the tool boundary\<close>

text \<open>
  C6: when the tool \<open>improve_prompt\<close> is called with \<open>user_prompt\<close> absent or empty,
  the handler (of main.py and of auto_improve_main.py) returns the one text payload
  "Error: No prompt provided to improve." and makes no call of the engine, whatever the
  state of the instruction file.
\<close>

theorem improve_prompt_missing:
  assumes "arguments ''user_prompt'' = None \<or> arguments ''user_prompt'' = Some []"
  shows "handle_call_tool_main file ''improve_prompt'' arguments =
           ([], Inr [\<lparr>type = ''text'', text = ''Error: No prompt provided to improve.''\<rparr>]) \<and>
         handle_call_tool_auto file ''improve_prompt'' arguments =
           ([], Inr [\<lparr>type = ''text'', text = ''Error: No prompt provided to improve.''\<rparr>])"
  using assms by (auto simp: handle_call_tool_main_def handle_call_tool_auto_def get_arg_def)

text \<open>C6 at two calls: no arguments at all, and an empty \<open>user_prompt\<close> with a context.\<close>

theorem improve_prompt_missing_witness:
  "handle_call_tool_main (Unreadable ''denied'') ''improve_prompt'' Map.empty =
      ([], Inr [\<lparr>type = ''text'', text = ''Error: No prompt provided to improve.''\<rparr>]) \<and>
   handle_call_tool_auto Absent ''improve_prompt'' [''user_prompt'' \<mapsto> [], ''context'' \<mapsto> ''Java''] =
      ([], Inr [\<lparr>type = ''text'', text = ''Error: No prompt provided to improve.''\<rparr>])"
  using improve_prompt_missing [of Map.empty "Unreadable ''denied''"]
        improve_prompt_missing [of "[''user_prompt'' \<mapsto> [], ''context'' \<mapsto> ''Java'']" Absent]
  by simp

text \<open>
  C10: when the tool \<open>auto_improve_all_prompts\<close> is called with \<open>user_message\<close>
  absent or empty, the handler returns the one text payload "Error: No message provided
  to improve.", which is not the payload "Error: No prompt provided to improve." of
  \<open>improve_prompt\<close>, and makes no call of the engine.
\<close>

theorem auto_improve_missing:
  assumes "arguments ''user_message'' = None \<or> arguments ''user_message'' = Some []"
  shows "handle_call_tool_auto file ''auto_improve_all_prompts'' arguments =
           ([], Inr [\<lparr>type = ''text'', text = ''Error: No message provided to improve.''\<rparr>]) \<and>
         snd (handle_call_tool_auto file ''auto_improve_all_prompts'' arguments) \<noteq>
           Inr [\<lparr>type = ''text'', text = ''Error: No prompt provided to improve.''\<rparr>]"
  using assms by (auto simp: handle_call_tool_auto_def get_arg_def)

text \<open>C10 at two calls: no arguments, and an empty \<open>user_message\<close>.\<close>

theorem auto_improve_missing_witness:
  "handle_call_tool_auto Absent ''auto_improve_all_prompts'' Map.empty =
      ([], Inr [\<lparr>type = ''text'', text = ''Error: No message provided to improve.''\<rparr>]) \<and>
   handle_call_tool_auto Absent ''auto_improve_all_prompts'' [''user_message'' \<mapsto> []] =
      ([], Inr [\<lparr>type = ''text'', text = ''Error: No message provided to improve.''\<rparr>])"
  using auto_improve_missing [of Map.empty Absent]
        auto_improve_missing [of "[''user_message'' \<mapsto> []]" Absent]
  by simp


text \<open>
  C9: a \<open>user_prompt\<close> of whitespace only is not empty, so the handler of main.py does
  not reject it: it calls the engine on it. With no context (and an instruction file that
  can be read) the payload is ". Please provide detailed steps and examples." followed
  by the closing block; it begins with ". " and holds no text of the prompt.
\<close>

theorem whitespace_prompt_enhanced:
  assumes "user_prompt \<noteq> []" and "\<forall>c\<in>set user_prompt. isspace c"
    and "arguments ''user_prompt'' = Some user_prompt"
    and "arguments ''context'' = None \<or> arguments ''context'' = Some []"
    and "\<forall>m. file \<noteq> Unreadable m"
  shows "handle_call_tool_main file ''improve_prompt'' arguments =
           ([Improve_prompt_locally user_prompt []],
            Inr [\<lparr>type = ''text'',
                  text = ''. Please provide detailed steps and examples.'' @
                         ''\<newline>\<newline>Ensure the response is practical and actionable.''\<rparr>])"
proof -
  have u: "get_arg arguments ''user_prompt'' = user_prompt"
    using assms(3) by (simp add: get_arg_def)
  have c: "get_arg arguments ''context'' = []"
    using assms(4) by (auto simp: get_arg_def)
  obtain instructions where r: "read_improvement_prompt file = Inr instructions"
    using assms(5) by (cases "file") auto
  have "improve_prompt_locally_main file user_prompt [] =
          Inr (''. Please provide detailed steps and examples.'' @
               ''\<newline>\<newline>Ensure the response is practical and actionable.'')"
    unfolding improve_prompt_locally_main_def r
    using enhance_main_whitespace [OF assms(2)] by simp
  then show ?thesis
    using assms(1) by (simp add: handle_call_tool_main_def u c Let_def)
qed

text \<open>C9 at a prompt of a space, a tab and a line feed.\<close>

theorem whitespace_prompt_enhanced_witness:
  "handle_call_tool_main Absent ''improve_prompt'' [''user_prompt'' \<mapsto> [CHR '' '', CHR 0x09, CHR ''\<newline>'']] =
           ([Improve_prompt_locally [CHR '' '', CHR 0x09, CHR ''\<newline>''] []],
            Inr [\<lparr>type = ''text'',
                  text = ''. Please provide detailed steps and examples.'' @
                         ''\<newline>\<newline>Ensure the response is practical and actionable.''\<rparr>])"
  by (rule whitespace_prompt_enhanced) (simp_all add: isspace_def)

section \<open>The context block\<close>

text \<open>
  C2, as the code has it: when the context is not empty, the output contains "Context: "
  followed by the context. When the context is empty, the engine adds no "Context:" of
  its own: the output contains "Context:" exactly when the prompt does. Both engines.
\<close>

theorem context_inclusion:
  "(context \<noteq> [] \<longrightarrow>
      str_in (''Context: '' @ context)
        (enhance_prompt_structure_main prompt context improvements) \<and>
      str_in (''Context: '' @ context)
        (enhance_prompt_structure_auto prompt context improvements)) \<and>
   (context = [] \<longrightarrow>
      (str_in ''Context:'' (enhance_prompt_structure_main prompt context improvements)
         \<longleftrightarrow> str_in ''Context:'' prompt) \<and>
      (str_in ''Context:'' (enhance_prompt_structure_auto prompt context improvements)
         \<longleftrightarrow> str_in ''Context:'' prompt))"
proof (intro conjI impI)
  assume c: "context \<noteq> []"
  show "str_in (''Context: '' @ context)
          (enhance_prompt_structure_main prompt context improvements)"
    unfolding enhance_prompt_structure_main_def Let_def
    by (intro str_in_append_left str_in_add_code_format_main str_in_add_context c)
  show "str_in (''Context: '' @ context)
          (enhance_prompt_structure_auto prompt context improvements)"
    unfolding enhance_prompt_structure_auto_def Let_def
    by (intro str_in_append_left str_in_add_explanation_format_auto
          str_in_add_code_format_auto str_in_add_context c)
next
  assume c: "context = []"
  show "str_in ''Context:'' (enhance_prompt_structure_main prompt context improvements)
          \<longleftrightarrow> str_in ''Context:'' prompt"
    unfolding enhance_prompt_structure_main_def Let_def c
    by (simp only: context_free_closing_main context_free_code_format_main
          context_free_specificity_main context_free_role_main context_free_str_strip
          add_context_def simp_thms if_False)
  show "str_in ''Context:'' (enhance_prompt_structure_auto prompt context improvements)
          \<longleftrightarrow> str_in ''Context:'' prompt"
    unfolding enhance_prompt_structure_auto_def Let_def c
    by (simp only: context_free_closing_auto context_free_explanation_format_auto
          context_free_code_format_auto context_free_specificity_auto context_free_role_auto
          context_free_str_strip add_context_def simp_thms if_False)
qed

text \<open>C2 at the prompt "Fix the bug", with the context "Java backend" and with none.\<close>

theorem context_inclusion_witness:
  "str_in ''Context: Java backend''
     (enhance_prompt_structure_main ''Fix the bug'' ''Java backend'' []) \<and>
   str_in ''Context: Java backend''
     (enhance_prompt_structure_auto ''Fix the bug'' ''Java backend'' []) \<and>
   \<not> str_in ''Context:'' (enhance_prompt_structure_main ''Fix the bug'' [] []) \<and>
   \<not> str_in ''Context:'' (enhance_prompt_structure_auto ''Fix the bug'' [] [])"
  using context_inclusion [of "''Java backend''" "''Fix the bug''" "[]"]
        context_inclusion [of "[]" "''Fix the bug''" "[]"]
  by simp

text \<open>
  C2 as the claim states it fails: with an empty context, a prompt that itself says
  "Context:" gives an output that contains "Context:".
\<close>

theorem context_in_prompt_counterexample:
  "str_in ''Context:''
     (enhance_prompt_structure_main ''Context: Java. Fix the bug'' []
        (analyse_prompt ''Context: Java. Fix the bug'' [])) \<and>
   str_in ''Context:''
     (enhance_prompt_structure_auto ''Context: Java. Fix the bug'' []
        (analyse_prompt ''Context: Java. Fix the bug'' []))"
  by code_simp

section \<open>The code checklist and the explanation checklist\<close>

text \<open>
  C8, as the code has it: in auto_improve_main.py, whenever the code checklist is
  appended (the buffer after the context stage contains "code", "function", "script" or
  "program"), the explanation checklist is appended too, and the output is the buffer,
  the two checklists and the closing sentence. The reason is the checklist line "Clear
  comments explaining the code", which contains "explain".
\<close>

theorem code_format_brings_explanation_format:
  "(code_request_auto
      (add_context context (add_specificity_auto (add_role_auto prompt (str_strip prompt))))
    \<longrightarrow> enhance_prompt_structure_auto prompt context improvements =
          add_context context (add_specificity_auto (add_role_auto prompt (str_strip prompt)))
          @ code_format_auto @ explanation_format_auto @ closing_auto) \<and>
   (code_request_auto e \<longrightarrow> explanation_request_auto (add_code_format_auto e)) \<and>
   str_in ''explain'' (str_lower ''- Clear comments explaining the code'')"
proof -
  have 1: "explanation_request_auto (add_code_format_auto b)" if "code_request_auto b" for b
    using that by (simp add: add_code_format_auto_def explanation_request_code_format_auto)
  have 2: "str_in ''explain'' (str_lower ''- Clear comments explaining the code'')"
    by code_simp
  from 1 2 show ?thesis
    by (simp add: enhance_prompt_structure_auto_def Let_def add_explanation_format_auto_def
          add_code_format_auto_def)
qed

text \<open>C8 at the prompt "fix the script".\<close>

theorem code_format_brings_explanation_format_witness:
  "code_request_auto
      (add_context [] (add_specificity_auto (add_role_auto ''fix the script'' (str_strip ''fix the script''))))
   \<and> enhance_prompt_structure_auto ''fix the script'' [] [] =
         ''fix the script. Please provide detailed steps, examples, and explanations.''
         @ code_format_auto @ explanation_format_auto @ closing_auto"
proof -
  have h: "code_request_auto
      (add_context [] (add_specificity_auto (add_role_auto ''fix the script'' (str_strip ''fix the script''))))"
    by code_simp
  have e: "add_context [] (add_specificity_auto (add_role_auto ''fix the script'' (str_strip ''fix the script'')))
      = ''fix the script. Please provide detailed steps, examples, and explanations.''"
    by code_simp
  from code_format_brings_explanation_format [of "[]" "''fix the script''" "[]"] h
  have "enhance_prompt_structure_auto ''fix the script'' [] [] =
          add_context [] (add_specificity_auto (add_role_auto ''fix the script'' (str_strip ''fix the script'')))
          @ code_format_auto @ explanation_format_auto @ closing_auto"
    by blast
  with h e show ?thesis by simp
qed

text \<open>
  C8 as the claim states it fails in its reason: the line "Brief explanation of the
  approach" does not contain "explain" ("explanation" has no "i" after "expla").
\<close>

theorem brief_explanation_has_no_explain:
  "\<not> str_in ''explain'' (str_lower ''- Brief explanation of the approach'')"
  by code_simp

end
